theory Spec2Isabelle
  imports Complex_Main "HOL-Library.Sublist" "HOL-Library.Multiset"
begin

text \<open>
  A model of the state and derivation logic of the game tracker's client script,
  \<open>static/js/app.js\<close>. The script comes in an earlier and a later copy, and declares some
  functions more than once; where the declarations differ, the text says which one a
  definition follows.
\<close>

section \<open>Strings\<close>

text \<open>
  JavaScript strings are modelled as \<open>string\<close>, restricted to ASCII text:
  \<open>toLowerCase\<close> maps the letters A..Z to a..z and leaves every other character alone.
\<close>

definition lowerChar :: "char \<Rightarrow> char" where
  "lowerChar c =
     (case map_of (zip ''ABCDEFGHIJKLMNOPQRSTUVWXYZ'' ''abcdefghijklmnopqrstuvwxyz'') c of
        None \<Rightarrow> c
      | Some l \<Rightarrow> l)"

definition toLowerCase :: "string \<Rightarrow> string" where
  "toLowerCase s = map lowerChar s"

text \<open>\<open>hay.includes(needle)\<close>: the needle occurs in the hay as a contiguous substring.\<close>

fun str_includes :: "string \<Rightarrow> string \<Rightarrow> bool" where
  "str_includes [] needle = (needle = [])"
| "str_includes (c # cs) needle = (prefix needle (c # cs) \<or> str_includes cs needle)"

text \<open>\<open>String.prototype.trim\<close>, on ASCII white space.\<close>

definition isSpace :: "char \<Rightarrow> bool" where
  "isSpace c = (c \<in> set [CHR '' '', CHR 0x09, CHR 0x0A, CHR 0x0B, CHR 0x0C, CHR 0x0D])"

definition trim :: "string \<Rightarrow> string" where
  "trim s = rev (dropWhile isSpace (rev (dropWhile isSpace s)))"

section \<open>Data model\<close>

text \<open>
  A game object as the backend's JSON gives it. A field the code guards with \<open>|| ...\<close> or
  \<open>?.\<close> may be missing and is an option. JSON numbers are finite, so the sign of a
  difference of two of them is the sign of the exact difference; they are rationals here.
  \<open>created_at\<close> holds the time value of \<open>new Date(game.created_at)\<close>, \<open>None\<close> for an
  invalid date (whose time value is NaN).
\<close>

record game =
  g_id :: int
  title :: string
  platform :: "string option"
  status :: "string option"
  rating :: "int option"
  hours_played :: "rat option"
  tags :: "string list option"
  g_notes :: "string option"
  completion_percentage :: "rat option"
  created_at :: "int option"
  cover_url :: "string option"
  is_favorite :: bool

record filters =
  f_status :: string
  f_platform :: string
  f_search :: string

section \<open>Filtering\<close>

text \<open>The arrow function given to \<open>filtered.filter\<close> in \<open>applySortingAndFiltering\<close>.\<close>

definition matchGame :: "filters \<Rightarrow> game \<Rightarrow> bool" where
  "matchGame currentFilters game =
     (let matchSearch =
            (f_search currentFilters = [] \<or>
             str_includes (toLowerCase (title game)) (f_search currentFilters) \<or>
             str_includes (toLowerCase (case g_notes game of None \<Rightarrow> [] | Some n \<Rightarrow> n))
                      (f_search currentFilters) \<or>
             list_ex (\<lambda>t. str_includes (toLowerCase t) (f_search currentFilters))
                     (case tags game of None \<Rightarrow> [] | Some ts \<Rightarrow> ts));
          matchStatus =
            (f_status currentFilters = [] \<or> status game = Some (f_status currentFilters));
          matchPlatform =
            (f_platform currentFilters = [] \<or> platform game = Some (f_platform currentFilters))
      in matchSearch \<and> matchStatus \<and> matchPlatform)"

text \<open>
  The inclusion rule in the specification's words: the search string occurs
  case-insensitively (both sides folded to lower case) in the title, the notes or a tag.
\<close>

definition occursIgnoringCase :: "string \<Rightarrow> string \<Rightarrow> bool" where
  "occursIgnoringCase needle hay = str_includes (toLowerCase hay) (toLowerCase needle)"

definition specIncluded :: "filters \<Rightarrow> game \<Rightarrow> bool" where
  "specIncluded flt g =
     ((f_search flt = [] \<or>
       occursIgnoringCase (f_search flt) (title g) \<or>
       occursIgnoringCase (f_search flt) (case g_notes g of None \<Rightarrow> [] | Some n \<Rightarrow> n) \<or>
       (\<exists>t \<in> set (case tags g of None \<Rightarrow> [] | Some ts \<Rightarrow> ts).
            occursIgnoringCase (f_search flt) t)) \<and>
      (f_status flt = [] \<or> status g = Some (f_status flt)) \<and>
      (f_platform flt = [] \<or> platform g = Some (f_platform flt)))"

text \<open>The two games of the specification's scenarios.\<close>

definition alpha :: game where
  "alpha = \<lparr>g_id = 1, title = ''Alpha'', platform = None, status = None, rating = Some 3,
            hours_played = Some 5, tags = None, g_notes = None, completion_percentage = None,
            created_at = None, cover_url = None, is_favorite = False\<rparr>"

definition beta :: game where
  "beta = \<lparr>g_id = 2, title = ''Beta'', platform = None, status = None, rating = Some 5,
           hours_played = Some 20, tags = None, g_notes = None, completion_percentage = None,
           created_at = None, cover_url = None, is_favorite = False\<rparr>"

section \<open>Sorting\<close>

text \<open>\<open>x || 0\<close> and \<open>x || ''\<close> on a field that may be missing.\<close>

definition orZero :: "rat option \<Rightarrow> rat" where
  "orZero x = (case x of None \<Rightarrow> 0 | Some v \<Rightarrow> v)"

definition orEmpty :: "string option \<Rightarrow> string" where
  "orEmpty x = (case x of None \<Rightarrow> [] | Some v \<Rightarrow> v)"

text \<open>
  The comparator given to \<open>filtered.sort\<close>. \<open>String.prototype.localeCompare\<close> depends on
  the host's locale and is a parameter. The difference of two dates of which one is invalid
  is NaN, which \<open>Array.prototype.sort\<close> takes as \<open>+0\<close>.
\<close>

definition compareGames :: "(string \<Rightarrow> string \<Rightarrow> int) \<Rightarrow> string \<Rightarrow> game \<Rightarrow> game \<Rightarrow> rat" where
  "compareGames localeCompare currentSort a b =
     (if currentSort = ''title'' then of_int (localeCompare (title a) (title b))
      else if currentSort = ''title-desc'' then of_int (localeCompare (title b) (title a))
      else if currentSort = ''hours'' then orZero (hours_played b) - orZero (hours_played a)
      else if currentSort = ''hours-asc'' then orZero (hours_played a) - orZero (hours_played b)
      else if currentSort = ''rating'' then
        orZero (map_option of_int (rating b)) - orZero (map_option of_int (rating a))
      else if currentSort = ''rating-asc'' then
        orZero (map_option of_int (rating a)) - orZero (map_option of_int (rating b))
      else if currentSort = ''completion'' then
        (let aComp = orZero (completion_percentage a); bComp = orZero (completion_percentage b)
         in bComp - aComp)
      else if currentSort = ''completion-asc'' then
        (let aCompAsc = orZero (completion_percentage a);
             bCompAsc = orZero (completion_percentage b)
         in aCompAsc - bCompAsc)
      else if currentSort = ''status'' then
        of_int (localeCompare (orEmpty (status a)) (orEmpty (status b)))
      else if currentSort = ''platform'' then
        of_int (localeCompare (orEmpty (platform a)) (orEmpty (platform b)))
      else (case (created_at b, created_at a) of
              (Some tb, Some ta) \<Rightarrow> of_int (tb - ta)
            | _ \<Rightarrow> 0))"

text \<open>
  \<open>Array.prototype.sort\<close> is a stable sort (ECMAScript 2019). It is modelled by the stable
  insertion sort: an element goes in front of the first later element that it does not
  follow. For a comparator that is consistent on the elements, every stable sort gives
  this result. For a comparator that is not (the key \<open>recent\<close> with an invalid date among
  valid ones), ECMAScript leaves the order to the engine, and the order of this model is
  one possible order, which an engine need not produce.
\<close>

fun insertBy :: "('a \<Rightarrow> 'a \<Rightarrow> rat) \<Rightarrow> 'a \<Rightarrow> 'a list \<Rightarrow> 'a list" where
  "insertBy cmp x [] = [x]"
| "insertBy cmp x (y # ys) = (if cmp x y \<le> 0 then x # y # ys else y # insertBy cmp x ys)"

definition jsSort :: "('a \<Rightarrow> 'a \<Rightarrow> rat) \<Rightarrow> 'a list \<Rightarrow> 'a list" where
  "jsSort cmp xs = foldr (insertBy cmp) xs []"

text \<open>
  A comparator is consistent on a set of elements when it is antisymmetric in sign and
  \<open>not after\<close> is transitive, as ECMAScript asks of a comparator; \<open>consistentLocale\<close> says
  so of \<open>localeCompare\<close> on all strings.
\<close>

definition consistentOn :: "'a set \<Rightarrow> ('a \<Rightarrow> 'a \<Rightarrow> rat) \<Rightarrow> bool" where
  "consistentOn S cmp \<longleftrightarrow>
     (\<forall>a\<in>S. \<forall>b\<in>S. (cmp a b < 0 \<longleftrightarrow> 0 < cmp b a)) \<and>
     (\<forall>a\<in>S. \<forall>b\<in>S. \<forall>c\<in>S. cmp a b \<le> 0 \<and> cmp b c \<le> 0 \<longrightarrow> cmp a c \<le> 0)"


text \<open>
  What it means that \<open>ys\<close> is \<open>xs\<close> sorted by the comparator, stably: the same elements,
  none before an element that the comparator puts before it, and elements that the
  comparator does not tell apart in the order they have in \<open>xs\<close>.
\<close>

definition stableSorted :: "('a \<Rightarrow> 'a \<Rightarrow> rat) \<Rightarrow> 'a list \<Rightarrow> 'a list \<Rightarrow> bool" where
  "stableSorted cmp xs ys \<longleftrightarrow>
     mset ys = mset xs \<and>
     sorted_wrt (\<lambda>x y. cmp x y \<le> 0) ys \<and>
     (\<forall>g\<in>set xs. filter (\<lambda>y. cmp g y \<le> 0 \<and> cmp y g \<le> 0) ys =
                  filter (\<lambda>y. cmp g y \<le> 0 \<and> cmp y g \<le> 0) xs)"

section \<open>Client state\<close>

text \<open>
  The value of the variable \<open>allGames\<close>: a reference to an array object, or a JSON value
  that is not an array (what \<open>res.json()\<close> gives for an error object).
\<close>

datatype games_value = ArrayRef nat | NotArray

text \<open>An entry of the Top-10 draft, as \<open>addGameToTop10\<close> builds it.\<close>

record top10_entry =
  game_id :: int
  t10_title :: string
  t10_platform :: "string option"
  t10_hours_played :: "rat option"
  t10_rating :: "int option"
  t10_cover_url :: "string option"
  why_i_love_it :: "string option"

text \<open>
  The content of the element \<open>games-list\<close>: the cards of the games given to
  \<open>renderGames\<close> (the empty-state placeholder when there are none), or the notice that
  loading failed.
\<close>

datatype games_list = Rendered "game list" | FailedToLoad

text \<open>
  The module-level variables, the parts of the page the functions below write, and the
  browser's \<open>localStorage\<close>. \<open>arrays\<close> is the store of array objects: sorting an array
  in place changes what every reference to it sees. Addresses below \<open>nextAddr\<close> are in
  use.
\<close>

record app_state =
  arrays :: "nat \<Rightarrow> game list"
  nextAddr :: nat
  allGames :: games_value
  isLoggedIn :: bool
  currentSort :: string
  currentFilters :: filters
  top10Games :: "top10_entry list"
  isEditingTop10 :: bool
  gamesList :: games_list
  authIndicator :: string
  alerts :: "string list"
  localStorage :: "string \<Rightarrow> string option"

datatype js_error = TypeError | SyntaxError | NetworkError string

text \<open>How a call ends: it returns, or it throws (an async function rejects).\<close>

datatype outcome = Returned app_state | Threw js_error app_state

fun final :: "outcome \<Rightarrow> app_state" where
  "final (Returned st) = st"
| "final (Threw e st) = st"

definition allocArray :: "game list \<Rightarrow> app_state \<Rightarrow> nat \<times> app_state" where
  "allocArray xs st =
     (nextAddr st, st\<lparr>arrays := (arrays st)(nextAddr st := xs), nextAddr := Suc (nextAddr st)\<rparr>)"

definition alert :: "string \<Rightarrow> app_state \<Rightarrow> app_state" where
  "alert msg st = st\<lparr>alerts := alerts st @ [msg]\<rparr>"

text \<open>
  \<open>renderGames\<close> replaces the content of \<open>games-list\<close> by the cards of the games, built
  from fields within the ranges of the data model (a rating from 0 to 5).
\<close>

definition renderGames :: "game list \<Rightarrow> app_state \<Rightarrow> app_state" where
  "renderGames games st = st\<lparr>gamesList := Rendered games\<rparr>"

definition updateUIForAuth :: "app_state \<Rightarrow> app_state" where
  "updateUIForAuth st =
     st\<lparr>authIndicator := (if isLoggedIn st then ''Admin Mode'' else ''View Only'')\<rparr>"

section \<open>Re-derivation of the visible list\<close>

text \<open>
  \<open>applySortingAndFiltering\<close>: \<open>[...allGames]\<close> makes a new array (and throws a TypeError
  when \<open>allGames\<close> is not iterable), \<open>filter\<close> makes another one, \<open>sort\<close> sorts that one
  in place, and \<open>renderGames\<close> shows it.
\<close>

definition applySortingAndFiltering :: "(string \<Rightarrow> string \<Rightarrow> int) \<Rightarrow> app_state \<Rightarrow> outcome" where
  "applySortingAndFiltering localeCompare st =
     (case allGames st of
        NotArray \<Rightarrow> Threw TypeError st
      | ArrayRef a \<Rightarrow>
          (let (spread, st1) = allocArray (arrays st a) st;
               (filtered, st2) =
                  allocArray (filter (matchGame (currentFilters st1)) (arrays st1 spread)) st1;
               st3 = st2\<lparr>arrays := (arrays st2)
                        (filtered := jsSort (compareGames localeCompare (currentSort st2))
                                            (arrays st2 filtered))\<rparr>
           in Returned (renderGames (arrays st3 filtered) st3)))"

text \<open>\<open>saveFilters\<close> writes the three filters to \<open>localStorage\<close>.\<close>

definition saveFilters :: "app_state \<Rightarrow> app_state" where
  "saveFilters st =
     st\<lparr>localStorage := (localStorage st)
          (''gameTracker_filter_status'' \<mapsto> f_status (currentFilters st),
           ''gameTracker_filter_platform'' \<mapsto> f_platform (currentFilters st),
           ''gameTracker_filter_search'' \<mapsto> f_search (currentFilters st))\<rparr>"

text \<open>
  \<open>loadSavedFilters\<close> reads them back when the page starts: a stored value that is not
  empty becomes the filter as it is.
\<close>

definition loadSavedFilters :: "app_state \<Rightarrow> app_state" where
  "loadSavedFilters st =
     (let savedStatus = localStorage st ''gameTracker_filter_status'';
          savedPlatform = localStorage st ''gameTracker_filter_platform'';
          savedSearch = localStorage st ''gameTracker_filter_search'';
          st1 = (case savedStatus of
                   Some v \<Rightarrow> if v \<noteq> [] then st\<lparr>currentFilters := (currentFilters st)\<lparr>f_status := v\<rparr>\<rparr>
                             else st
                 | None \<Rightarrow> st);
          st2 = (case savedPlatform of
                   Some v \<Rightarrow> if v \<noteq> [] then st1\<lparr>currentFilters := (currentFilters st1)\<lparr>f_platform := v\<rparr>\<rparr>
                             else st1
                 | None \<Rightarrow> st1)
      in (case savedSearch of
            Some v \<Rightarrow> if v \<noteq> [] then st2\<lparr>currentFilters := (currentFilters st2)\<lparr>f_search := v\<rparr>\<rparr>
                      else st2
          | None \<Rightarrow> st2))"

text \<open>
  \<open>filterGames\<close>, the listener of the search box and of the two filter selects: it reads
  the three inputs, folds the search text to lower case, saves the filters and derives
  the list again.
\<close>

definition filterGames ::
  "(string \<Rightarrow> string \<Rightarrow> int) \<Rightarrow> string \<Rightarrow> string \<Rightarrow> string \<Rightarrow> app_state \<Rightarrow> outcome" where
  "filterGames localeCompare searchValue statusValue platformValue st =
     applySortingAndFiltering localeCompare
       (saveFilters
         (st\<lparr>currentFilters := \<lparr>f_status = statusValue, f_platform = platformValue,
                                  f_search = toLowerCase searchValue\<rparr>\<rparr>))"

text \<open>
  What holds of the search text wherever the script puts it: the filter and the stored
  copy are in lower case.
\<close>

definition searchFolded :: "app_state \<Rightarrow> bool" where
  "searchFolded st \<longleftrightarrow>
     toLowerCase (f_search (currentFilters st)) = f_search (currentFilters st) \<and>
     (\<forall>v. localStorage st ''gameTracker_filter_search'' = Some v \<longrightarrow> toLowerCase v = v)"

text \<open>The \<open>change\<close> listener of the select \<open>sort-by\<close>.\<close>

definition sortByChanged :: "(string \<Rightarrow> string \<Rightarrow> int) \<Rightarrow> string \<Rightarrow> app_state \<Rightarrow> outcome" where
  "sortByChanged localeCompare v st =
     applySortingAndFiltering localeCompare
       (st\<lparr>currentSort := v,
           localStorage := (localStorage st)(''gameTracker_sort'' \<mapsto> v)\<rparr>)"

text \<open>The games the page shows.\<close>

fun shown :: "games_list \<Rightarrow> game list" where
  "shown (Rendered gs) = gs"
| "shown FailedToLoad = []"

text \<open>The array that \<open>allGames\<close> refers to.\<close>

definition gamesOf :: "app_state \<Rightarrow> game list" where
  "gamesOf st = (case allGames st of ArrayRef a \<Rightarrow> arrays st a | NotArray \<Rightarrow> [])"

text \<open>\<open>allGames\<close> refers to an array object of the store.\<close>

definition hasGames :: "app_state \<Rightarrow> bool" where
  "hasGames st = (case allGames st of ArrayRef a \<Rightarrow> a < nextAddr st | NotArray \<Rightarrow> False)"

section \<open>Reads and writes over the network\<close>

text \<open>
  What \<open>await fetch(...)\<close> gives: the promise rejects (a network error, with its message),
  or it resolves to a response with a status and a body. \<open>json_body\<close> is what
  \<open>res.json()\<close> gives, \<open>None\<close> when the body is not JSON and \<open>res.json()\<close> rejects.
\<close>

datatype 'a response = Response (http_status: nat) (json_body: "'a option")

datatype 'a fetch_result = Rejected string | Resolved "'a response"

definition ok :: "'a response \<Rightarrow> bool" where
  "ok res = (200 \<le> http_status res \<and> http_status res \<le> 299)"

text \<open>A JSON body of \<open>/api/games\<close>: the array of games, or an object such as an error.\<close>

datatype games_json = GamesArray "game list" | ErrorObject string

definition assignAllGames :: "games_json \<Rightarrow> app_state \<Rightarrow> app_state" where
  "assignAllGames j st =
     (case j of
        GamesArray gs \<Rightarrow> (let (a, st1) = allocArray gs st in st1\<lparr>allGames := ArrayRef a\<rparr>)
      | ErrorObject msg \<Rightarrow> st\<lparr>allGames := NotArray\<rparr>)"

text \<open>
  \<open>fetchGames\<close> as it is declared first (and again behind \<open>Call this after loading games\<close>
  in the earlier copy of the script): no \<open>try\<close>, no look at \<open>res.ok\<close>.
\<close>

definition fetchGames ::
  "(string \<Rightarrow> string \<Rightarrow> int) \<Rightarrow> games_json fetch_result \<Rightarrow> app_state \<Rightarrow> outcome" where
  "fetchGames localeCompare net st =
     (case net of
        Rejected msg \<Rightarrow> Threw (NetworkError msg) st
      | Resolved res \<Rightarrow>
          (case json_body res of
             None \<Rightarrow> Threw SyntaxError st
           | Some j \<Rightarrow> applySortingAndFiltering localeCompare (assignAllGames j st)))"

text \<open>
  \<open>fetchGames\<close> as the later copy of the script declares it last: everything in a \<open>try\<close>,
  a throw on \<open>!res.ok\<close>, and the failure notice in the \<open>catch\<close>.
\<close>

definition fetchGames_try ::
  "(string \<Rightarrow> string \<Rightarrow> int) \<Rightarrow> games_json fetch_result \<Rightarrow> app_state \<Rightarrow> outcome" where
  "fetchGames_try localeCompare net st =
     (case net of
        Rejected msg \<Rightarrow> Returned (st\<lparr>gamesList := FailedToLoad\<rparr>)
      | Resolved res \<Rightarrow>
          if \<not> ok res then Returned (st\<lparr>gamesList := FailedToLoad\<rparr>)
          else (case json_body res of
                  None \<Rightarrow> Returned (st\<lparr>gamesList := FailedToLoad\<rparr>)
                | Some j \<Rightarrow>
                    (case applySortingAndFiltering localeCompare (assignAllGames j st) of
                       Returned st1 \<Rightarrow> Returned st1
                     | Threw e st1 \<Rightarrow> Returned (st1\<lparr>gamesList := FailedToLoad\<rparr>))))"

fun findIndex :: "('a \<Rightarrow> bool) \<Rightarrow> 'a list \<Rightarrow> nat option" where
  "findIndex P [] = None"
| "findIndex P (x # xs) = (if P x then Some 0 else map_option Suc (findIndex P xs))"

text \<open>
  \<open>toggleFavorite\<close>: a \<open>PUT\<close>; only an \<open>ok\<close> response changes anything, and the \<open>catch\<close>
  logs to the console. The body carries \<open>is_favorite\<close>.
\<close>

definition toggleFavorite ::
  "(string \<Rightarrow> string \<Rightarrow> int) \<Rightarrow> int \<Rightarrow> bool fetch_result \<Rightarrow> app_state \<Rightarrow> outcome" where
  "toggleFavorite localeCompare gameId net st =
     (case net of
        Rejected msg \<Rightarrow> Returned st
      | Resolved response \<Rightarrow>
          if ok response then
            (case json_body response of
               None \<Rightarrow> Returned st
             | Some result \<Rightarrow>
                 (case allGames st of
                    NotArray \<Rightarrow> Returned st
                  | ArrayRef a \<Rightarrow>
                      (case findIndex (\<lambda>g. g_id g = gameId) (arrays st a) of
                         None \<Rightarrow> Returned st
                       | Some gameIndex \<Rightarrow>
                           Returned (final (applySortingAndFiltering localeCompare
                             (st\<lparr>arrays := (arrays st)
                                   (a := (arrays st a)
                                      [gameIndex :=
                                         (arrays st a ! gameIndex)\<lparr>is_favorite := result\<rparr>])\<rparr>))))))
          else Returned st)"

text \<open>
  \<open>deleteGame\<close>: the answer to \<open>confirm\<close> and the two network results (of the \<open>DELETE\<close> and
  of the \<open>fetchGames\<close> that follows it) are inputs.
\<close>

definition deleteGame ::
  "(string \<Rightarrow> string \<Rightarrow> int) \<Rightarrow> int \<Rightarrow> bool \<Rightarrow> unit fetch_result \<Rightarrow> games_json fetch_result
     \<Rightarrow> app_state \<Rightarrow> outcome" where
  "deleteGame localeCompare gid confirmed net netGames st =
     (if \<not> isLoggedIn st then Returned (alert ''Please login to delete games'' st)
      else if \<not> confirmed then Returned st
      else (case net of
              Rejected msg \<Rightarrow> Returned (alert (''Error deleting game: '' @ msg) st)
            | Resolved response \<Rightarrow>
                if http_status response = 401 then
                  Returned (updateUIForAuth
                    ((alert ''Your session has expired. Please enter the password again.'' st)
                       \<lparr>isLoggedIn := False\<rparr>))
                else fetchGames localeCompare netGames st))"

section \<open>The Top-10 draft\<close>

definition addGameToTop10 :: "int \<Rightarrow> app_state \<Rightarrow> outcome" where
  "addGameToTop10 gameId st =
     (if length (top10Games st) \<ge> 10 then
        Returned (alert ''Top 10 is full! Remove a game first.'' st)
      else (case allGames st of
              NotArray \<Rightarrow> Threw TypeError st
            | ArrayRef a \<Rightarrow>
                (case find (\<lambda>g. g_id g = gameId) (arrays st a) of
                   None \<Rightarrow> Returned st
                 | Some game \<Rightarrow>
                     Returned (st\<lparr>top10Games := top10Games st @
                       [\<lparr>game_id = g_id game, t10_title = title game,
                         t10_platform = platform game, t10_hours_played = hours_played game,
                         t10_rating = rating game, t10_cover_url = cover_url game,
                         why_i_love_it = Some []\<rparr>]\<rparr>))))"

definition removeFromTop10 :: "int \<Rightarrow> app_state \<Rightarrow> app_state" where
  "removeFromTop10 gameId st =
     st\<lparr>top10Games := filter (\<lambda>game. game_id game \<noteq> gameId) (top10Games st)\<rparr>"

definition updateTop10Reason :: "int \<Rightarrow> string \<Rightarrow> app_state \<Rightarrow> app_state" where
  "updateTop10Reason gameId reason st =
     (case findIndex (\<lambda>g. game_id g = gameId) (top10Games st) of
        None \<Rightarrow> st
      | Some i \<Rightarrow>
          st\<lparr>top10Games := (top10Games st)
                [i := (top10Games st ! i)\<lparr>why_i_love_it := Some reason\<rparr>]\<rparr>)"

text \<open>
  \<open>loadTop10\<close>: the draft becomes what \<open>/api/top10\<close> answers, whatever the status and
  however many entries the answer has; a rejection or a body that is not JSON is caught
  and logged. The answer is taken to be an array of entries.
\<close>

definition loadTop10 :: "top10_entry list fetch_result \<Rightarrow> app_state \<Rightarrow> app_state" where
  "loadTop10 net st =
     (case net of
        Rejected msg \<Rightarrow> st
      | Resolved res \<Rightarrow>
          (case json_body res of None \<Rightarrow> st | Some entries \<Rightarrow> st\<lparr>top10Games := entries\<rparr>))"

definition cancelTop10Edit :: "top10_entry list fetch_result \<Rightarrow> app_state \<Rightarrow> app_state" where
  "cancelTop10Edit net st = loadTop10 net (st\<lparr>isEditingTop10 := False\<rparr>)"

text \<open>\<open>closeTop10Modal\<close> hides the editor and calls \<open>cancelTop10Edit\<close>.\<close>

definition closeTop10Modal :: "top10_entry list fetch_result \<Rightarrow> app_state \<Rightarrow> app_state" where
  "closeTop10Modal net st = cancelTop10Edit net st"

text \<open>What \<open>saveTop10\<close> sends.\<close>

record top10_item =
  item_game_id :: int
  position :: nat
  item_why_i_love_it :: string

record top10_request =
  req_method :: string
  req_url :: string
  req_body :: "top10_item list"

definition gamesToSave :: "top10_entry list \<Rightarrow> top10_item list" where
  "gamesToSave draft =
     map (\<lambda>(index, game).
            \<lparr>item_game_id = game_id game, position = index + 1,
             item_why_i_love_it = orEmpty (why_i_love_it game)\<rparr>)
         (enumerate 0 draft)"

definition saveTop10_request :: "app_state \<Rightarrow> top10_request" where
  "saveTop10_request st =
     \<lparr>req_method = ''POST'', req_url = ''/api/top10'', req_body = gamesToSave (top10Games st)\<rparr>"

text \<open>
  \<open>saveTop10\<close>: the request above, then on an \<open>ok\<close> response a notice,
  \<open>closeTop10Modal\<close>, \<open>cancelTop10Edit\<close> and \<open>loadTop10\<close>, each of which reads
  \<open>/api/top10\<close> again; otherwise a notice with the response's text
  (\<open>errorText\<close>), the network error's message, or the message of the error that
  \<open>response.json()\<close> throws (\<open>jsonError\<close>).
\<close>

definition saveTop10 ::
  "unit fetch_result \<Rightarrow> string \<Rightarrow> string \<Rightarrow> top10_entry list fetch_result
     \<Rightarrow> top10_entry list fetch_result \<Rightarrow> top10_entry list fetch_result \<Rightarrow> app_state
     \<Rightarrow> top10_request \<times> app_state" where
  "saveTop10 net errorText jsonError netLoad1 netLoad2 netLoad3 st =
     (saveTop10_request st,
      (case net of
         Rejected msg \<Rightarrow> alert (''Network error saving Top 10: '' @ msg) st
       | Resolved response \<Rightarrow>
           if ok response then
             (case json_body response of
                None \<Rightarrow> alert (''Network error saving Top 10: '' @ jsonError) st
              | Some result \<Rightarrow>
                  loadTop10 netLoad3
                    (cancelTop10Edit netLoad2
                      (closeTop10Modal netLoad1 (alert ''Top 10 saved successfully!'' st))))
           else alert (''Error saving Top 10: '' @ errorText) st))"

text \<open>
  The edits of the draft that the editor offers through \<open>addGameToTop10\<close>,
  \<open>removeFromTop10\<close> and \<open>updateTop10Reason\<close>, and the draft after a sequence of them.
  The script also declares \<open>moveTop10Up\<close> and \<open>moveTop10Down\<close>, which no control calls,
  and a drag-and-drop reorder; with an index out of range they put empty slots into the
  array, which a list of entries does not have, and they are not modelled.
\<close>

datatype top10_edit =
    Add int
  | Remove int
  | Reason int string

fun top10Step :: "top10_edit \<Rightarrow> app_state \<Rightarrow> app_state" where
  "top10Step (Add gameId) st = final (addGameToTop10 gameId st)"
| "top10Step (Remove gameId) st = removeFromTop10 gameId st"
| "top10Step (Reason gameId reason) st = updateTop10Reason gameId reason st"

fun top10Run :: "top10_edit list \<Rightarrow> app_state \<Rightarrow> app_state" where
  "top10Run [] st = st"
| "top10Run (e # es) st = top10Run es (top10Step e st)"

section \<open>The search box of the Top-10 editor\<close>

text \<open>
  \<open>setupTop10Search\<close> registers two \<open>input\<close> listeners on the search box. Time is in
  milliseconds. \<open>searchTimeout\<close> is the pending timer (when it is due, and the term its
  callback searches for); \<open>searchCalls\<close> logs every call of \<open>searchAvailableGames\<close> with
  its time.
\<close>

record search_box =
  searchTimeout :: "(nat \<times> string) option"
  searchCalls :: "(nat \<times> string) list"

definition searchAvailableGames :: "nat \<Rightarrow> string \<Rightarrow> search_box \<Rightarrow> search_box" where
  "searchAvailableGames now searchTerm sb = sb\<lparr>searchCalls := searchCalls sb @ [(now, searchTerm)]\<rparr>"

text \<open>The first listener searches at once.\<close>

definition onInputFirst :: "nat \<Rightarrow> string \<Rightarrow> search_box \<Rightarrow> search_box" where
  "onInputFirst now v sb =
     (let searchTerm = toLowerCase (trim v)
      in if length searchTerm < 2 then sb else searchAvailableGames now searchTerm sb)"

text \<open>The second listener clears the pending timer and sets one for 300 ms later.\<close>

definition onInputSecond :: "nat \<Rightarrow> string \<Rightarrow> search_box \<Rightarrow> search_box" where
  "onInputSecond now v sb =
     (let sb1 = sb\<lparr>searchTimeout := None\<rparr>;
          searchTerm = toLowerCase (trim v)
      in if length searchTerm < 2 then sb1
         else sb1\<lparr>searchTimeout := Some (now + 300, searchTerm)\<rparr>)"

text \<open>Time passes up to \<open>now\<close>: a timer that is due runs its callback.\<close>

definition advanceTo :: "nat \<Rightarrow> search_box \<Rightarrow> search_box" where
  "advanceTo now sb =
     (case searchTimeout sb of
        None \<Rightarrow> sb
      | Some (due, searchTerm) \<Rightarrow>
          if due \<le> now then searchAvailableGames due searchTerm (sb\<lparr>searchTimeout := None\<rparr>)
          else sb)"

text \<open>An \<open>input\<close> event at time \<open>now\<close> runs the listeners in the order of registration.\<close>

definition inputEvent :: "nat \<Rightarrow> string \<Rightarrow> search_box \<Rightarrow> search_box" where
  "inputEvent now v sb = onInputSecond now v (onInputFirst now v (advanceTo now sb))"

fun typing :: "(nat \<times> string) list \<Rightarrow> search_box \<Rightarrow> search_box" where
  "typing [] sb = sb"
| "typing ((now, v) # evs) sb = typing evs (inputEvent now v sb)"

section \<open>Concrete inputs\<close>

text \<open>
  The list that a derivation shows, as a function of the content of the cache, the
  filters and the sort key.
\<close>

definition derive :: "(string \<Rightarrow> string \<Rightarrow> int) \<Rightarrow> filters \<Rightarrow> string \<Rightarrow> game list \<Rightarrow> game list" where
  "derive localeCompare flt sortKey games =
     jsSort (compareGames localeCompare sortKey) (filter (matchGame flt) games)"

text \<open>One possible \<open>localeCompare\<close>, used to run the model: the order of the character codes.\<close>

fun codeCompare :: "string \<Rightarrow> string \<Rightarrow> int" where
  "codeCompare [] [] = 0"
| "codeCompare [] (y # ys) = - 1"
| "codeCompare (x # xs) [] = 1"
| "codeCompare (x # xs) (y # ys) =
     (if (of_char x :: nat) < of_char y then - 1
      else if (of_char y :: nat) < of_char x then 1
      else codeCompare xs ys)"



definition noFilters :: filters where
  "noFilters = \<lparr>f_status = [], f_platform = [], f_search = []\<rparr>"

text \<open>The page after the two games of the scenarios have been fetched, logged in.\<close>

definition twoGames :: app_state where
  "twoGames =
     \<lparr>arrays = (\<lambda>a. [])(0 := [alpha, beta]), nextAddr = 1, allGames = ArrayRef 0,
      isLoggedIn = True, currentSort = ''recent'', currentFilters = noFilters,
      top10Games = [], isEditingTop10 = False, gamesList = Rendered [alpha, beta],
      authIndicator = ''Admin Mode'', alerts = [], localStorage = Map.empty\<rparr>"


definition entryOf :: "int \<Rightarrow> top10_entry" where
  "entryOf i =
     \<lparr>game_id = i, t10_title = ''Game'', t10_platform = None, t10_hours_played = None,
      t10_rating = None, t10_cover_url = None, why_i_love_it = Some []\<rparr>"

text \<open>The same page with a full draft.\<close>

definition fullDraft :: app_state where
  "fullDraft = twoGames\<lparr>top10Games := map entryOf [1, 2, 3, 4, 5, 6, 7, 8, 9, 10]\<rparr>"

definition emptySearchBox :: search_box where
  "emptySearchBox = \<lparr>searchTimeout = None, searchCalls = []\<rparr>"

section \<open>Facts about strings\<close>

lemma str_includes_iff: "str_includes hay needle \<longleftrightarrow> (\<exists>p s. hay = p @ needle @ s)"
proof (induction hay)
  case Nil
  then show ?case by auto
next
  case (Cons c cs)
  show ?case
  proof
    assume "str_includes (c # cs) needle"
    then consider "prefix needle (c # cs)" | "str_includes cs needle" by auto
    then show "\<exists>p s. c # cs = p @ needle @ s"
    proof cases
      case 1
      then obtain s where "c # cs = needle @ s" by (auto simp: prefix_def)
      then have "c # cs = [] @ needle @ s" by simp
      then show ?thesis by blast
    next
      case 2
      with Cons.IH obtain p s where "cs = p @ needle @ s" by blast
      then have "c # cs = (c # p) @ needle @ s" by simp
      then show ?thesis by blast
    qed
  next
    assume "\<exists>p s. c # cs = p @ needle @ s"
    then obtain p s where ps: "c # cs = p @ needle @ s" by blast
    show "str_includes (c # cs) needle"
    proof (cases p)
      case Nil
      with ps have "prefix needle (c # cs)" by (simp add: prefix_def)
      then show ?thesis by simp
    next
      case (Cons a p')
      with ps have "cs = p' @ needle @ s" by simp
      with Cons.IH have "str_includes cs needle" by blast
      then show ?thesis by simp
    qed
  qed
qed

lemma lowerChar_idem: "lowerChar (lowerChar c) = lowerChar c"
  unfolding lowerChar_def by (simp split: option.splits if_splits)

lemma toLowerCase_idem: "toLowerCase (toLowerCase s) = toLowerCase s"
  by (simp add: toLowerCase_def lowerChar_idem)

section \<open>Facts about the sort\<close>

lemma mset_insertBy: "mset (insertBy cmp x ys) = add_mset x (mset ys)"
  by (induction ys) simp_all

lemma mset_jsSort: "mset (jsSort cmp xs) = mset xs"
  unfolding jsSort_def by (induction xs) (simp_all add: mset_insertBy)

lemma set_jsSort: "set (jsSort cmp xs) = set xs"
  using mset_jsSort [of cmp xs] by (metis set_mset_mset)

lemma length_jsSort: "length (jsSort cmp xs) = length xs"
  using mset_jsSort [of cmp xs] by (metis size_mset)



section \<open>Facts about the derivation\<close>

lemma applySortingAndFiltering_array:
  assumes "allGames st = ArrayRef a"
  shows "applySortingAndFiltering lc st =
     Returned (st\<lparr>arrays := (arrays st)
                   (nextAddr st := arrays st a,
                    Suc (nextAddr st) := derive lc (currentFilters st) (currentSort st) (arrays st a)),
                 nextAddr := Suc (Suc (nextAddr st)),
                 gamesList := Rendered (derive lc (currentFilters st) (currentSort st) (arrays st a))\<rparr>)"
  using assms
  by (simp add: applySortingAndFiltering_def allocArray_def renderGames_def derive_def Let_def)

lemma hasGames_ArrayRef: "hasGames st \<Longrightarrow> \<exists>a. allGames st = ArrayRef a \<and> a < nextAddr st"
  by (cases "allGames st") (simp_all add: hasGames_def)

lemma derivation_shows:
  assumes "hasGames st"
  shows "shown (gamesList (final (applySortingAndFiltering lc st))) =
           derive lc (currentFilters st) (currentSort st) (gamesOf st)"
proof -
  from assms obtain a where a: "allGames st = ArrayRef a" "a < nextAddr st"
    using hasGames_ArrayRef by blast
  then show ?thesis
    by (simp add: applySortingAndFiltering_array gamesOf_def)
qed

lemma derivation_frame:
  assumes "hasGames st"
  shows "hasGames (final (applySortingAndFiltering lc st)) \<and>
         gamesOf (final (applySortingAndFiltering lc st)) = gamesOf st \<and>
         allGames (final (applySortingAndFiltering lc st)) = allGames st \<and>
         currentFilters (final (applySortingAndFiltering lc st)) = currentFilters st \<and>
         currentSort (final (applySortingAndFiltering lc st)) = currentSort st"
proof -
  from assms obtain a where a: "allGames st = ArrayRef a" "a < nextAddr st"
    using hasGames_ArrayRef by blast
  then show ?thesis
    by (simp add: applySortingAndFiltering_array gamesOf_def hasGames_def)
qed

lemma derivation_repeated_frame:
  assumes "hasGames st"
  shows "hasGames (((\<lambda>s. final (applySortingAndFiltering lc s)) ^^ n) st) \<and>
         gamesOf (((\<lambda>s. final (applySortingAndFiltering lc s)) ^^ n) st) = gamesOf st \<and>
         currentFilters (((\<lambda>s. final (applySortingAndFiltering lc s)) ^^ n) st) = currentFilters st \<and>
         currentSort (((\<lambda>s. final (applySortingAndFiltering lc s)) ^^ n) st) = currentSort st"
proof (induction n)
  case 0
  with assms show ?case by simp
next
  case (Suc n)
  then show ?case by (simp add: derivation_frame)
qed







lemma occursIgnoringCase_lower:
  "toLowerCase n = n \<Longrightarrow> occursIgnoringCase n hay = str_includes (toLowerCase hay) n"
  by (simp add: occursIgnoringCase_def)

lemma matchGame_specIncluded:
  assumes "toLowerCase (f_search flt) = f_search flt"
  shows "matchGame flt g = specIncluded flt g"
  using assms
  by (simp add: matchGame_def specIncluded_def occursIgnoringCase_lower list_ex_iff)

lemma filterGames_stores_lower_case:
  "toLowerCase (f_search (currentFilters (final (filterGames lc v s p st)))) =
     f_search (currentFilters (final (filterGames lc v s p st)))"
proof (cases "allGames st")
  case (ArrayRef a)
  then show ?thesis
    by (simp add: filterGames_def saveFilters_def applySortingAndFiltering_array toLowerCase_idem)
next
  case NotArray
  then show ?thesis
    by (simp add: filterGames_def saveFilters_def applySortingAndFiltering_def toLowerCase_idem)
qed

lemma hasGames_twoGames: "hasGames twoGames"
  by (simp add: hasGames_def twoGames_def)

section \<open>Facts about reads\<close>

lemma fetchGames_try_failed_read:
  assumes "net = Rejected msg \<or> (\<exists>res. net = Resolved res \<and> \<not> ok res)"
  shows "fetchGames_try lc net st = Returned (st\<lparr>gamesList := FailedToLoad\<rparr>)"
  using assms by (auto simp: fetchGames_try_def)

lemma fetchGames_error_object:
  "fetchGames lc (Resolved (Response code (Some (ErrorObject msg)))) st =
     Threw TypeError (st\<lparr>allGames := NotArray\<rparr>)"
  by (simp add: fetchGames_def assignAllGames_def applySortingAndFiltering_def)

lemma toggleFavorite_not_ok:
  "\<not> ok response \<Longrightarrow> toggleFavorite lc gameId (Resolved response) st = Returned st"
  by (simp add: toggleFavorite_def)

lemma inputEvent_searches_at_once:
  assumes "2 \<le> length (toLowerCase (trim v))"
  shows "(now, toLowerCase (trim v)) \<in> set (searchCalls (inputEvent now v sb))"
  using assms
  by (simp add: inputEvent_def onInputFirst_def onInputSecond_def searchAvailableGames_def Let_def)

lemma fetchGames_network_error:
  "fetchGames lc (Rejected msg) st = Threw (NetworkError msg) st"
  by (simp add: fetchGames_def)

lemma deleteGame_401:
  assumes "isLoggedIn st" and "http_status response = 401"
  shows "deleteGame lc gid True (Resolved response) netGames st =
     Returned (st\<lparr>alerts := alerts st @ [''Your session has expired. Please enter the password again.''],
                  isLoggedIn := False, authIndicator := ''View Only''\<rparr>)"
  using assms by (simp add: deleteGame_def alert_def updateUIForAuth_def)

section \<open>Facts about the draft\<close>

lemma addGameToTop10_length:
  "length (top10Games st) \<le> 10 \<Longrightarrow> length (top10Games (final (addGameToTop10 gameId st))) \<le> 10"
  by (simp add: addGameToTop10_def alert_def split: games_value.splits option.splits)

lemma removeFromTop10_length:
  "length (top10Games (removeFromTop10 gameId st)) \<le> length (top10Games st)"
  by (simp add: removeFromTop10_def)

lemma updateTop10Reason_length:
  "length (top10Games (updateTop10Reason gameId reason st)) = length (top10Games st)"
  by (simp add: updateTop10Reason_def split: option.splits)

lemma position_gamesToSave: "map position (gamesToSave draft) = [1..<Suc (length draft)]"
proof -
  have "map position (gamesToSave draft) = map (Suc \<circ> fst) (enumerate 0 draft)"
    by (simp add: gamesToSave_def case_prod_unfold comp_def)
  also have "\<dots> = map Suc [0..<length draft]"
    by (simp add: map_fst_enumerate flip: map_map)
  also have "\<dots> = [1..<Suc (length draft)]"
    by (simp add: map_Suc_upt)
  finally show ?thesis .
qed

lemma game_id_gamesToSave: "map item_game_id (gamesToSave draft) = map game_id draft"
proof -
  have "map item_game_id (gamesToSave draft) = map (game_id \<circ> snd) (enumerate 0 draft)"
    by (simp add: gamesToSave_def case_prod_unfold comp_def)
  also have "\<dots> = map game_id draft"
    by (simp flip: map_map)
  finally show ?thesis .
qed

lemma why_gamesToSave:
  "map item_why_i_love_it (gamesToSave draft) = map (\<lambda>g. orEmpty (why_i_love_it g)) draft"
proof -
  have "map item_why_i_love_it (gamesToSave draft) =
          map ((\<lambda>g. orEmpty (why_i_love_it g)) \<circ> snd) (enumerate 0 draft)"
    by (simp add: gamesToSave_def case_prod_unfold comp_def)
  also have "\<dots> = map (\<lambda>g. orEmpty (why_i_love_it g)) draft"
    by (simp flip: map_map)
  finally show ?thesis .
qed

section \<open>Facts about stable sorting\<close>


lemma consistentOn_refl: "consistentOn S cmp \<Longrightarrow> x \<in> S \<Longrightarrow> cmp x x \<le> 0"
  unfolding consistentOn_def by (metis less_le_not_le linorder_le_cases)



lemma consistentOn_subset: "consistentOn S cmp \<Longrightarrow> T \<subseteq> S \<Longrightarrow> consistentOn T cmp"
  unfolding consistentOn_def by blast




text \<open>Every stable sort gives the result of the model when the comparator is consistent.\<close>

lemma insertBy_remove1:
  assumes "x \<in> set ys" and "sorted_wrt (\<lambda>a b. cmp a b \<le> 0) ys"
    and "hd (filter (\<lambda>y. cmp x y \<le> 0 \<and> cmp y x \<le> 0) ys) = x"
  shows "insertBy cmp x (remove1 x ys) = ys"
  using assms
proof (induction ys)
  case Nil
  then show ?case by simp
next
  case (Cons y ys)
  show ?case
  proof (cases "y = x")
    case True
    with Cons.prems(2) show ?thesis by (cases ys) simp_all
  next
    case False
    with Cons.prems(1) have xin: "x \<in> set ys" by simp
    with Cons.prems(2) have yx: "cmp y x \<le> 0" by simp
    have nxy: "\<not> cmp x y \<le> 0"
    proof
      assume "cmp x y \<le> 0"
      with yx Cons.prems(3) have "y = x" by simp
      with False show False by simp
    qed
    with Cons.prems(3) have "hd (filter (\<lambda>y. cmp x y \<le> 0 \<and> cmp y x \<le> 0) ys) = x" by simp
    with Cons.IH xin Cons.prems(2) have "insertBy cmp x (remove1 x ys) = ys" by simp
    with False nxy show ?thesis by simp
  qed
qed

lemma sorted_wrt_remove:
  "sorted_wrt P ys \<Longrightarrow> sorted_wrt P (remove1 x ys)"
proof (induction ys)
  case Nil
  then show ?case by simp
next
  case (Cons y ys)
  have "set (remove1 x ys) \<subseteq> set ys" by (rule set_remove1_subset)
  with Cons show ?case by auto
qed

lemma stableSorted_unique:
  assumes "consistentOn (set xs) cmp" and "stableSorted cmp xs ys"
  shows "ys = jsSort cmp xs"
  using assms
proof (induction xs arbitrary: ys)
  case Nil
  then show ?case by (simp add: stableSorted_def jsSort_def)
next
  case (Cons x xs)
  let ?E = "\<lambda>g y. cmp g y \<le> 0 \<and> cmp y g \<le> 0"
  have all: "mset ys = mset (x # xs) \<and> sorted_wrt (\<lambda>a b. cmp a b \<le> 0) ys \<and>
      (\<forall>g\<in>set (x # xs). filter (?E g) ys = filter (?E g) (x # xs))"
    using Cons.prems(2) unfolding stableSorted_def .
  then have m: "mset ys = mset (x # xs)"
    and s: "sorted_wrt (\<lambda>a b. cmp a b \<le> 0) ys"
    by blast+
  from all have f: "filter (?E g) ys = filter (?E g) (x # xs)" if "g \<in> set (x # xs)" for g
    using that by blast
  from m have xin: "x \<in> set ys"
    by (metis list.set_intros(1) set_mset_mset)
  have c': "consistentOn (set xs) cmp"
    using Cons.prems(1) by (rule consistentOn_subset) auto
  have "stableSorted cmp xs (remove1 x ys)"
    unfolding stableSorted_def
  proof (intro conjI ballI)
    show "mset (remove1 x ys) = mset xs" using m by simp
    show "sorted_wrt (\<lambda>a b. cmp a b \<le> 0) (remove1 x ys)"
      using s by (rule sorted_wrt_remove)
    fix g assume g: "g \<in> set xs"
    have "filter (?E g) (remove1 x ys) = remove1 x (filter (?E g) ys)"
      by (rule filter_remove1)
    also have "\<dots> = remove1 x (filter (?E g) (x # xs))"
      using f [of g] g by simp
    also have "\<dots> = filter (?E g) xs"
      by (auto simp: remove1_idem)
    finally show "filter (?E g) (remove1 x ys) = filter (?E g) xs" .
  qed
  with Cons.IH c' have r: "remove1 x ys = jsSort cmp xs" by simp
  have "cmp x x \<le> 0"
    using consistentOn_refl [OF Cons.prems(1)] by simp
  with f [of x] have "hd (filter (?E x) ys) = x" by simp
  with xin s have "insertBy cmp x (remove1 x ys) = ys" by (rule insertBy_remove1)
  with r show ?case by (simp add: jsSort_def)
qed

section \<open>Facts about the comparators\<close>


















section \<open>Facts about the search text\<close>

lemma toLowerCase_Nil: "toLowerCase v = [] \<longleftrightarrow> v = []"
  by (simp add: toLowerCase_def)

lemma matchGame_typed:
  "matchGame \<lparr>f_status = s, f_platform = p, f_search = toLowerCase v\<rparr> g \<longleftrightarrow>
   specIncluded \<lparr>f_status = s, f_platform = p, f_search = v\<rparr> g"
  by (simp add: matchGame_def specIncluded_def occursIgnoringCase_def toLowerCase_Nil list_ex_iff)

lemma filterGames_state:
  assumes "allGames st = ArrayRef a"
  shows "filterGames lc v s p st =
     Returned (st\<lparr>arrays := (arrays st)
                   (nextAddr st := arrays st a,
                    Suc (nextAddr st) :=
                      derive lc \<lparr>f_status = s, f_platform = p, f_search = toLowerCase v\<rparr>
                        (currentSort st) (arrays st a)),
                 nextAddr := Suc (Suc (nextAddr st)),
                 currentFilters := \<lparr>f_status = s, f_platform = p, f_search = toLowerCase v\<rparr>,
                 gamesList := Rendered
                   (derive lc \<lparr>f_status = s, f_platform = p, f_search = toLowerCase v\<rparr>
                      (currentSort st) (arrays st a)),
                 localStorage := (localStorage st)
                   (''gameTracker_filter_status'' \<mapsto> s,
                    ''gameTracker_filter_platform'' \<mapsto> p,
                    ''gameTracker_filter_search'' \<mapsto> toLowerCase v)\<rparr>)"
  using assms
  by (simp add: filterGames_def saveFilters_def applySortingAndFiltering_array)

lemma filterGames_shows:
  assumes "hasGames st"
  shows "currentFilters (final (filterGames lc v s p st)) =
           \<lparr>f_status = s, f_platform = p, f_search = toLowerCase v\<rparr>"
    and "shown (gamesList (final (filterGames lc v s p st))) =
           jsSort (compareGames lc (currentSort st))
             (filter (specIncluded \<lparr>f_status = s, f_platform = p, f_search = v\<rparr>) (gamesOf st))"
proof -
  from assms obtain a where a: "allGames st = ArrayRef a"
    using hasGames_ArrayRef by blast
  have m: "matchGame \<lparr>f_status = s, f_platform = p, f_search = toLowerCase v\<rparr> =
           specIncluded \<lparr>f_status = s, f_platform = p, f_search = v\<rparr>"
    by (intro ext) (rule matchGame_typed)
  show "currentFilters (final (filterGames lc v s p st)) =
           \<lparr>f_status = s, f_platform = p, f_search = toLowerCase v\<rparr>"
    by (simp add: filterGames_state [OF a])
  show "shown (gamesList (final (filterGames lc v s p st))) =
           jsSort (compareGames lc (currentSort st))
             (filter (specIncluded \<lparr>f_status = s, f_platform = p, f_search = v\<rparr>) (gamesOf st))"
    by (simp add: filterGames_state [OF a] derive_def gamesOf_def a m)
qed

lemma searchFolded_filterGames: "searchFolded (final (filterGames lc v s p st))"
proof (cases "allGames st")
  case (ArrayRef a)
  then show ?thesis
    by (simp add: filterGames_state searchFolded_def toLowerCase_idem)
next
  case NotArray
  then show ?thesis
    by (simp add: filterGames_def saveFilters_def applySortingAndFiltering_def searchFolded_def
        toLowerCase_idem)
qed

lemma searchFolded_loadSavedFilters:
  assumes "searchFolded st"
  shows "searchFolded (loadSavedFilters st)"
  using assms
  by (auto simp: searchFolded_def loadSavedFilters_def Let_def split: option.splits)

lemma searchFolded_derivation:
  assumes "searchFolded st"
  shows "searchFolded (final (applySortingAndFiltering lc st))"
proof (cases "allGames st")
  case (ArrayRef a)
  with assms show ?thesis
    by (simp add: applySortingAndFiltering_array searchFolded_def)
next
  case NotArray
  with assms show ?thesis
    by (simp add: applySortingAndFiltering_def searchFolded_def)
qed

lemma searchFolded_matchGame:
  assumes "searchFolded st"
  shows "matchGame (currentFilters st) g \<longleftrightarrow> specIncluded (currentFilters st) g"
  using assms by (simp add: searchFolded_def matchGame_specIncluded)

section \<open>Facts about edits of the draft\<close>

lemma top10Step_length:
  assumes "length (top10Games st) \<le> 10"
  shows "length (top10Games (top10Step e st)) \<le> 10"
proof (cases e)
  case (Add x)
  with assms show ?thesis by (simp add: addGameToTop10_length)
next
  case (Remove x)
  with assms removeFromTop10_length [of x st] show ?thesis by simp
next
  case (Reason x r)
  with assms show ?thesis by (simp add: updateTop10Reason_length)
qed

lemma top10Run_length:
  "length (top10Games st) \<le> 10 \<Longrightarrow> length (top10Games (top10Run edits st)) \<le> 10"
  by (induction edits arbitrary: st) (simp_all add: top10Step_length)

section \<open>The claims\<close>

text \<open>
  Claim C1: whatever is typed into the search box and chosen in the two selects,
  \<open>filterGames\<close> stores the search text in lower case and the filter step then keeps a
  game if and only if the search text is empty or occurs, case ignored, in the title, the
  notes or a tag, and the status filter is empty or equals the game's status, and the
  platform filter is empty or equals the game's platform; the games shown are exactly
  those games of \<open>allGames\<close>. The search text stays in lower case wherever the script
  puts it (\<open>filterGames\<close>, \<open>saveFilters\<close>, \<open>loadSavedFilters\<close>), and for every such filter
  state the filter step keeps exactly the games that the rule includes. With the search
  \<open>alp\<close> and no other filter, the library of Alpha and Beta is filtered to Alpha alone.
\<close>

theorem filter_step_inclusion:
  "(matchGame \<lparr>f_status = s, f_platform = p, f_search = toLowerCase v\<rparr> g \<longleftrightarrow>
      specIncluded \<lparr>f_status = s, f_platform = p, f_search = v\<rparr> g) \<and>
   (hasGames st \<longrightarrow>
      currentFilters (final (filterGames lc v s p st)) =
        \<lparr>f_status = s, f_platform = p, f_search = toLowerCase v\<rparr> \<and>
      mset (shown (gamesList (final (filterGames lc v s p st)))) =
        mset (filter (specIncluded \<lparr>f_status = s, f_platform = p, f_search = v\<rparr>) (gamesOf st)) \<and>
      set (shown (gamesList (final (filterGames lc v s p st)))) =
        {g \<in> set (gamesOf st). specIncluded \<lparr>f_status = s, f_platform = p, f_search = v\<rparr> g}) \<and>
   searchFolded (final (filterGames lc v s p st)) \<and>
   (searchFolded st \<longrightarrow>
      searchFolded (loadSavedFilters st) \<and>
      searchFolded (final (applySortingAndFiltering lc st)) \<and>
      (matchGame (currentFilters st) g \<longleftrightarrow> specIncluded (currentFilters st) g) \<and>
      filter (matchGame (currentFilters st)) games = filter (specIncluded (currentFilters st)) games) \<and>
   (hasGames st \<and> searchFolded st \<longrightarrow>
      mset (shown (gamesList (final (applySortingAndFiltering lc st)))) =
        mset (filter (specIncluded (currentFilters st)) (gamesOf st))) \<and>
   filter (matchGame \<lparr>f_status = [], f_platform = [], f_search = ''alp''\<rparr>) [alpha, beta] = [alpha] \<and>
   (hasGames st \<and> gamesOf st = [alpha, beta] \<longrightarrow>
      shown (gamesList (final (filterGames lc ''alp'' [] [] st))) = [alpha])"
proof (intro conjI impI)
  show "matchGame \<lparr>f_status = s, f_platform = p, f_search = toLowerCase v\<rparr> g \<longleftrightarrow>
      specIncluded \<lparr>f_status = s, f_platform = p, f_search = v\<rparr> g"
    by (rule matchGame_typed)
next
  assume "hasGames st"
  then show "currentFilters (final (filterGames lc v s p st)) =
        \<lparr>f_status = s, f_platform = p, f_search = toLowerCase v\<rparr>"
    by (rule filterGames_shows)
next
  assume "hasGames st"
  then show "mset (shown (gamesList (final (filterGames lc v s p st)))) =
        mset (filter (specIncluded \<lparr>f_status = s, f_platform = p, f_search = v\<rparr>) (gamesOf st))"
    by (simp add: filterGames_shows mset_jsSort)
next
  assume "hasGames st"
  then show "set (shown (gamesList (final (filterGames lc v s p st)))) =
        {g \<in> set (gamesOf st). specIncluded \<lparr>f_status = s, f_platform = p, f_search = v\<rparr> g}"
    by (simp add: filterGames_shows set_jsSort)
next
  show "searchFolded (final (filterGames lc v s p st))"
    by (rule searchFolded_filterGames)
next
  assume "searchFolded st"
  then show "searchFolded (loadSavedFilters st)"
    by (rule searchFolded_loadSavedFilters)
next
  assume "searchFolded st"
  then show "searchFolded (final (applySortingAndFiltering lc st))"
    by (rule searchFolded_derivation)
next
  assume "searchFolded st"
  then show "matchGame (currentFilters st) g \<longleftrightarrow> specIncluded (currentFilters st) g"
    by (rule searchFolded_matchGame)
next
  assume "searchFolded st"
  then have "matchGame (currentFilters st) = specIncluded (currentFilters st)"
    by (intro ext) (rule searchFolded_matchGame)
  then show "filter (matchGame (currentFilters st)) games =
      filter (specIncluded (currentFilters st)) games"
    by simp
next
  assume h: "hasGames st \<and> searchFolded st"
  then have "matchGame (currentFilters st) = specIncluded (currentFilters st)"
    by (intro ext) (simp add: searchFolded_matchGame)
  with h show "mset (shown (gamesList (final (applySortingAndFiltering lc st)))) =
        mset (filter (specIncluded (currentFilters st)) (gamesOf st))"
    by (simp add: derivation_shows derive_def mset_jsSort)
next
  show "filter (matchGame \<lparr>f_status = [], f_platform = [], f_search = ''alp''\<rparr>) [alpha, beta] = [alpha]"
    by (simp add: matchGame_def alpha_def beta_def toLowerCase_def lowerChar_def)
next
  assume h: "hasGames st \<and> gamesOf st = [alpha, beta]"
  have "filter (specIncluded \<lparr>f_status = [], f_platform = [], f_search = ''alp''\<rparr>) [alpha, beta] =
      [alpha]"
    by (simp add: specIncluded_def occursIgnoringCase_def alpha_def beta_def toLowerCase_def
        lowerChar_def)
  with h show "shown (gamesList (final (filterGames lc ''alp'' [] [] st))) = [alpha]"
    by (simp add: filterGames_shows jsSort_def)
qed

text \<open>
  Claim C1 on the two games: \<open>ALP\<close> typed in capitals is stored as \<open>alp\<close> and shows Alpha
  alone; the page as loaded has its search text in lower case.
\<close>

theorem filter_step_inclusion_witness:
  "hasGames twoGames \<and> gamesOf twoGames = [alpha, beta] \<and>
   currentFilters (final (filterGames codeCompare ''ALP'' [] [] twoGames)) =
     \<lparr>f_status = [], f_platform = [], f_search = ''alp''\<rparr> \<and>
   set (shown (gamesList (final (filterGames codeCompare ''ALP'' [] [] twoGames)))) = {alpha} \<and>
   searchFolded twoGames \<and>
   searchFolded (loadSavedFilters twoGames) \<and>
   (matchGame (currentFilters twoGames) beta \<longleftrightarrow> specIncluded (currentFilters twoGames) beta) \<and>
   shown (gamesList (final (filterGames codeCompare ''alp'' [] [] twoGames))) = [alpha]"
proof -
  note incl = filter_step_inclusion
      [of "[]" "[]" "''ALP''" alpha twoGames codeCompare "[alpha, beta]"]
  have h: "hasGames twoGames"
    by (rule hasGames_twoGames)
  have g: "gamesOf twoGames = [alpha, beta]"
    by (simp add: gamesOf_def twoGames_def)
  have l: "toLowerCase ''ALP'' = ''alp''"
    by (simp add: toLowerCase_def lowerChar_def)
  have a: "specIncluded \<lparr>f_status = [], f_platform = [], f_search = ''ALP''\<rparr> alpha"
    by (simp add: specIncluded_def occursIgnoringCase_def alpha_def toLowerCase_def lowerChar_def)
  have b: "\<not> specIncluded \<lparr>f_status = [], f_platform = [], f_search = ''ALP''\<rparr> beta"
    by (simp add: specIncluded_def occursIgnoringCase_def beta_def toLowerCase_def lowerChar_def)
  have c: "{g \<in> set (gamesOf twoGames).
            specIncluded \<lparr>f_status = [], f_platform = [], f_search = ''ALP''\<rparr> g} = {alpha}"
    using a b by (auto simp: g)
  from incl [THEN conjunct2, THEN conjunct1, THEN mp, OF h]
  have f: "currentFilters (final (filterGames codeCompare ''ALP'' [] [] twoGames)) =
      \<lparr>f_status = [], f_platform = [], f_search = ''alp''\<rparr>"
    and s: "set (shown (gamesList (final (filterGames codeCompare ''ALP'' [] [] twoGames)))) = {alpha}"
    by (simp_all only: l c)
  have sf: "searchFolded twoGames"
    by (simp add: searchFolded_def twoGames_def noFilters_def toLowerCase_def)
  note incl' = filter_step_inclusion
      [of "[]" "[]" "''ALP''" beta twoGames codeCompare "[alpha, beta]"]
  from incl' [THEN conjunct2, THEN conjunct2, THEN conjunct2, THEN conjunct1, THEN mp, OF sf]
  have sl: "searchFolded (loadSavedFilters twoGames)"
    and m: "matchGame (currentFilters twoGames) beta \<longleftrightarrow> specIncluded (currentFilters twoGames) beta"
    by blast+
  have e: "shown (gamesList (final (filterGames codeCompare ''alp'' [] [] twoGames))) = [alpha]"
    by (rule incl [THEN conjunct2, THEN conjunct2, THEN conjunct2, THEN conjunct2,
          THEN conjunct2, THEN conjunct2, THEN mp, OF conjI [OF h g]])
  show ?thesis
    by (intro conjI) (fact h g f s sf sl m e)+
qed



text \<open>
  Claim C3: the list shown by a derivation depends only on the content of \<open>allGames\<close>,
  the filters and the sort key, so two runs on the same inputs show the same ordered list;
  the derivation returns; and running it again any number of times shows the same list
  as running it once.
\<close>

theorem derivation_deterministic_idempotent:
  "(hasGames st1 \<and> hasGames st2 \<and> gamesOf st1 = gamesOf st2 \<and>
      currentFilters st1 = currentFilters st2 \<and> currentSort st1 = currentSort st2 \<longrightarrow>
      shown (gamesList (final (applySortingAndFiltering lc st1))) =
      shown (gamesList (final (applySortingAndFiltering lc st2)))) \<and>
   (hasGames st \<longrightarrow>
      (\<exists>st'. applySortingAndFiltering lc st = Returned st') \<and>
      shown (gamesList (((\<lambda>s. final (applySortingAndFiltering lc s)) ^^ Suc n) st)) =
      shown (gamesList (final (applySortingAndFiltering lc st))))"
proof (intro conjI impI)
  assume "hasGames st1 \<and> hasGames st2 \<and> gamesOf st1 = gamesOf st2 \<and>
      currentFilters st1 = currentFilters st2 \<and> currentSort st1 = currentSort st2"
  then show "shown (gamesList (final (applySortingAndFiltering lc st1))) =
      shown (gamesList (final (applySortingAndFiltering lc st2)))"
    by (simp add: derivation_shows)
next
  assume h: "hasGames st"
  then obtain a where "allGames st = ArrayRef a" using hasGames_ArrayRef by blast
  then show "\<exists>st'. applySortingAndFiltering lc st = Returned st'"
    by (simp add: applySortingAndFiltering_array)
next
  assume h: "hasGames st"
  let ?F = "\<lambda>s. final (applySortingAndFiltering lc s)"
  from derivation_repeated_frame [OF h, where lc = lc and n = n]
  have inv: "hasGames ((?F ^^ n) st)" "gamesOf ((?F ^^ n) st) = gamesOf st"
    "currentFilters ((?F ^^ n) st) = currentFilters st" "currentSort ((?F ^^ n) st) = currentSort st"
    by simp_all
  have "shown (gamesList ((?F ^^ Suc n) st)) = shown (gamesList (?F ((?F ^^ n) st)))"
    by simp
  also have "\<dots> = derive lc (currentFilters st) (currentSort st) (gamesOf st)"
    using inv by (simp add: derivation_shows)
  also have "\<dots> = shown (gamesList (?F st))"
    using h by (simp add: derivation_shows)
  finally show "shown (gamesList ((?F ^^ Suc n) st)) = shown (gamesList (final (applySortingAndFiltering lc st)))" .
qed

text \<open>Claim C3 on the two games: three derivations in a row show what one shows.\<close>

theorem derivation_deterministic_idempotent_witness:
  "hasGames twoGames \<and>
   shown (gamesList (((\<lambda>s. final (applySortingAndFiltering codeCompare s)) ^^ Suc 2) twoGames)) =
   shown (gamesList (final (applySortingAndFiltering codeCompare twoGames))) \<and>
   shown (gamesList (final (applySortingAndFiltering codeCompare twoGames))) = [alpha, beta]"
proof -
  have d: "derive codeCompare noFilters ''recent'' [alpha, beta] = [alpha, beta]"
    by (simp add: derive_def jsSort_def compareGames_def noFilters_def matchGame_def alpha_def beta_def)
  have s: "shown (gamesList (final (applySortingAndFiltering codeCompare twoGames))) = [alpha, beta]"
    using d by (simp add: derivation_shows hasGames_twoGames) (simp add: twoGames_def gamesOf_def)
  show ?thesis
    using derivation_deterministic_idempotent [of twoGames twoGames codeCompare twoGames 2]
      hasGames_twoGames s by simp
qed

text \<open>
  Claim C4 at a failed read, for the \<open>fetchGames\<close> without the \<open>try\<close>: the backend
  answers with status 500 and a JSON error object. The object is stored in \<open>allGames\<close> in
  the place of the two games, and the derivation that follows throws. With a JSON array
  in the body of the failed response, \<open>allGames\<close> takes that array.
\<close>

theorem fetchGames_failed_status_overwrites:
  "\<not> ok (Response 500 (Some (ErrorObject ''Internal Server Error''))) \<and>
   gamesOf twoGames = [alpha, beta] \<and>
   fetchGames codeCompare (Resolved (Response 500 (Some (ErrorObject ''Internal Server Error''))))
     twoGames = Threw TypeError (twoGames\<lparr>allGames := NotArray\<rparr>) \<and>
   \<not> ok (Response 500 (Some (GamesArray [beta]))) \<and>
   gamesOf (final (fetchGames codeCompare (Resolved (Response 500 (Some (GamesArray [beta]))))
     twoGames)) = [beta]"
  by (simp add: ok_def gamesOf_def twoGames_def fetchGames_def assignAllGames_def
      allocArray_def applySortingAndFiltering_def renderGames_def)

text \<open>
  Claim C5, as it is stated, at a reload: \<open>/api/top10\<close> answers with eleven entries and
  \<open>loadTop10\<close> stores them all, so \<open>top10Games\<close> holds eleven entries.
\<close>

theorem loadTop10_exceeds_capacity:
  "length (top10Games twoGames) \<le> 10 \<and>
   length (top10Games (loadTop10
     (Resolved (Response 200 (Some (map entryOf [1, 2, 3, 4, 5, 6, 7, 8, 9, 10, 11])))) twoGames)) = 11"
  by (simp add: loadTop10_def twoGames_def)

text \<open>
  Claim C5, amended: the edits of the editor (\<open>addGameToTop10\<close>, \<open>removeFromTop10\<close>,
  \<open>updateTop10Reason\<close>) never take a draft of at most ten entries beyond ten entries,
  and \<open>addGameToTop10\<close> on a draft that holds ten entries (or more) shows the notice
  that the Top 10 is full and leaves the draft as it is.
\<close>

theorem addGameToTop10_capacity:
  "(length (top10Games st) \<le> 10 \<longrightarrow> length (top10Games (top10Run edits st)) \<le> 10) \<and>
   (length (top10Games st) \<le> 10 \<longrightarrow>
      length (top10Games (final (addGameToTop10 gameId st))) \<le> 10) \<and>
   (10 \<le> length (top10Games st) \<longrightarrow>
      addGameToTop10 gameId st = Returned (alert ''Top 10 is full! Remove a game first.'' st) \<and>
      top10Games (final (addGameToTop10 gameId st)) = top10Games st \<and>
      alerts (final (addGameToTop10 gameId st)) =
        alerts st @ [''Top 10 is full! Remove a game first.''])"
proof (intro conjI impI)
  assume "length (top10Games st) \<le> 10"
  then show "length (top10Games (top10Run edits st)) \<le> 10"
    by (rule top10Run_length)
next
  assume "length (top10Games st) \<le> 10"
  then show "length (top10Games (final (addGameToTop10 gameId st))) \<le> 10"
    by (rule addGameToTop10_length)
next
  assume "10 \<le> length (top10Games st)"
  then show "addGameToTop10 gameId st =
      Returned (alert ''Top 10 is full! Remove a game first.'' st)"
    by (simp add: addGameToTop10_def)
next
  assume "10 \<le> length (top10Games st)"
  then show "top10Games (final (addGameToTop10 gameId st)) = top10Games st"
    by (simp add: addGameToTop10_def alert_def)
next
  assume "10 \<le> length (top10Games st)"
  then show "alerts (final (addGameToTop10 gameId st)) =
      alerts st @ [''Top 10 is full! Remove a game first.'']"
    by (simp add: addGameToTop10_def alert_def)
qed

text \<open>Claim C5, amended, on a full draft: five edits of it, and an eleventh add.\<close>

theorem addGameToTop10_capacity_witness:
  "length (top10Games fullDraft) = 10 \<and>
   length (top10Games (top10Run [Add 1, Remove 3, Add 2, Add 1, Reason 4 ''Great''] fullDraft)) \<le> 10 \<and>
   map game_id (top10Games (top10Run [Add 1, Remove 3, Add 2, Add 1, Reason 4 ''Great''] fullDraft)) =
     [1, 2, 4, 5, 6, 7, 8, 9, 10, 2] \<and>
   top10Games (final (addGameToTop10 1 fullDraft)) = top10Games fullDraft \<and>
   alerts (final (addGameToTop10 1 fullDraft)) = [''Top 10 is full! Remove a game first.'']"
proof -
  note cap = addGameToTop10_capacity
      [of fullDraft "[Add 1, Remove 3, Add 2, Add 1, Reason 4 ''Great'']" 1]
  have l: "length (top10Games fullDraft) = 10"
    by (simp add: fullDraft_def)
  then have l1: "length (top10Games fullDraft) \<le> 10" and l2: "10 \<le> length (top10Games fullDraft)"
    by simp_all
  have a: "alerts fullDraft = []"
    by (simp add: fullDraft_def twoGames_def)
  have r: "length (top10Games (top10Run [Add 1, Remove 3, Add 2, Add 1, Reason 4 ''Great'']
      fullDraft)) \<le> 10"
    by (rule cap [THEN conjunct1, THEN mp, OF l1])
  have e: "map game_id (top10Games (top10Run [Add 1, Remove 3, Add 2, Add 1, Reason 4 ''Great'']
      fullDraft)) = [1, 2, 4, 5, 6, 7, 8, 9, 10, 2]"
    by (simp add: addGameToTop10_def removeFromTop10_def updateTop10Reason_def alert_def
        fullDraft_def twoGames_def entryOf_def alpha_def beta_def)
  from cap [THEN conjunct2, THEN conjunct2, THEN mp, OF l2]
  have t: "top10Games (final (addGameToTop10 1 fullDraft)) = top10Games fullDraft"
    and "alerts (final (addGameToTop10 1 fullDraft)) =
           alerts fullDraft @ [''Top 10 is full! Remove a game first.'']"
    by blast+
  then have n: "alerts (final (addGameToTop10 1 fullDraft)) =
      [''Top 10 is full! Remove a game first.'']"
    by (simp only: a append_Nil)
  show ?thesis
    by (intro conjI) (fact l r e t n)+
qed

text \<open>
  Claim C6: \<open>removeFromTop10\<close> keeps the other entries in their order, and the positions
  of the entries that remain are 1, 2, ..., N. \<open>saveTop10\<close> sends one \<open>POST\<close> to
  \<open>/api/top10\<close> whose body has one item for every entry of the draft, in the draft's
  order, the item at index i with position i + 1, the entry's game and its annotation.
\<close>

theorem top10_positions_dense:
  "map position (gamesToSave (top10Games (removeFromTop10 gameId st))) =
     [1..<Suc (length (top10Games (removeFromTop10 gameId st)))] \<and>
   top10Games (removeFromTop10 gameId st) =
     filter (\<lambda>game. game_id game \<noteq> gameId) (top10Games st) \<and>
   fst (saveTop10 net errorText jsonError netLoad1 netLoad2 netLoad3 st) =
     \<lparr>req_method = ''POST'', req_url = ''/api/top10'', req_body = gamesToSave (top10Games st)\<rparr> \<and>
   length (gamesToSave (top10Games st)) = length (top10Games st) \<and>
   map position (gamesToSave (top10Games st)) = [1..<Suc (length (top10Games st))] \<and>
   map item_game_id (gamesToSave (top10Games st)) = map game_id (top10Games st) \<and>
   map item_why_i_love_it (gamesToSave (top10Games st)) =
     map (\<lambda>g. orEmpty (why_i_love_it g)) (top10Games st)"
  by (simp add: position_gamesToSave game_id_gamesToSave why_gamesToSave
      removeFromTop10_def saveTop10_def saveTop10_request_def)
    (simp add: gamesToSave_def)

text \<open>Claim C6 on a full draft from which the third entry is removed.\<close>

theorem top10_positions_dense_witness:
  "map position (gamesToSave (top10Games (removeFromTop10 3 fullDraft))) = [1, 2, 3, 4, 5, 6, 7, 8, 9] \<and>
   map item_game_id (req_body (fst (saveTop10 (Resolved (Response 200 (Some ()))) [] []
      (Rejected []) (Rejected []) (Rejected []) (removeFromTop10 3 fullDraft)))) = [1, 2, 4, 5, 6, 7, 8, 9, 10]"
proof -
  have d: "top10Games (removeFromTop10 3 fullDraft) = map entryOf [1, 2, 4, 5, 6, 7, 8, 9, 10]"
    by (simp add: removeFromTop10_def fullDraft_def entryOf_def)
  have u: "[1..<10] = [1, 2, 3, 4, 5, 6, 7, 8, 9]"
    by (simp add: upt_rec)
  from top10_positions_dense [of 3 fullDraft "Resolved (Response 200 (Some ()))" "[]" "[]"
      "Rejected []" "Rejected []" "Rejected []"]
  have p: "map position (gamesToSave (top10Games (removeFromTop10 3 fullDraft))) =
      [1..<Suc (length (top10Games (removeFromTop10 3 fullDraft)))]"
    by blast
  from top10_positions_dense [of 0 "removeFromTop10 3 fullDraft"
      "Resolved (Response 200 (Some ()))" "[]" "[]" "Rejected []" "Rejected []" "Rejected []"]
  have "req_body (fst (saveTop10 (Resolved (Response 200 (Some ()))) [] []
      (Rejected []) (Rejected []) (Rejected []) (removeFromTop10 3 fullDraft))) =
        gamesToSave (top10Games (removeFromTop10 3 fullDraft))"
    and "map item_game_id (gamesToSave (top10Games (removeFromTop10 3 fullDraft))) =
        map game_id (top10Games (removeFromTop10 3 fullDraft))"
    by simp_all
  then have q: "map item_game_id (req_body (fst (saveTop10 (Resolved (Response 200 (Some ()))) [] []
      (Rejected []) (Rejected []) (Rejected []) (removeFromTop10 3 fullDraft)))) =
        map game_id (map entryOf [1, 2, 4, 5, 6, 7, 8, 9, 10])"
    by (simp only: d)
  have "map position (gamesToSave (top10Games (removeFromTop10 3 fullDraft))) =
      [1, 2, 3, 4, 5, 6, 7, 8, 9]"
    using p by (simp add: d u)
  moreover have "map game_id (map entryOf [1, 2, 4, 5, 6, 7, 8, 9, 10]) =
      [1, 2, 4, 5, 6, 7, 8, 9, 10]"
    by (simp add: entryOf_def)
  ultimately show ?thesis using q by simp
qed

text \<open>
  Claim C7 at a write that is answered with 401, for \<open>toggleFavorite\<close>: the client is
  in admin mode, the \<open>PUT\<close> of the favorite flag comes back with status 401, and nothing
  changes: \<open>isLoggedIn\<close> stays true, the indicator stays \<open>Admin Mode\<close>, no notice is
  shown.
\<close>

theorem toggleFavorite_401_stays_logged_in:
  "isLoggedIn twoGames \<and> http_status (Response 401 None :: bool response) = 401 \<and>
   toggleFavorite codeCompare 1 (Resolved (Response 401 None)) twoGames = Returned twoGames \<and>
   isLoggedIn (final (toggleFavorite codeCompare 1 (Resolved (Response 401 None)) twoGames)) \<and>
   alerts (final (toggleFavorite codeCompare 1 (Resolved (Response 401 None)) twoGames)) = [] \<and>
   authIndicator (final (toggleFavorite codeCompare 1 (Resolved (Response 401 None)) twoGames)) =
     ''Admin Mode''"
  by (simp add: toggleFavorite_def ok_def twoGames_def)

text \<open>
  Claim C8 at two keystrokes 100 ms apart in the search box of the Top-10 editor: the
  search runs at 0 ms and at 100 ms, at each keystroke, and once more at 400 ms when the
  timer of the last keystroke is due.
\<close>

theorem top10_search_runs_at_once:
  "searchCalls (advanceTo 1000 (typing [(0, ''al''), (100, ''alp'')] emptySearchBox)) =
     [(0, ''al''), (100, ''alp''), (400, ''alp'')]"
  by (simp add: emptySearchBox_def inputEvent_def advanceTo_def onInputFirst_def
      onInputSecond_def searchAvailableGames_def trim_def isSpace_def toLowerCase_def lowerChar_def)

text \<open>
  Claim C9: the list shown by a derivation is a sub-collection of \<open>allGames\<close> (as a
  multiset, so no game is shown more often than the cache holds it), every game shown is a
  game of \<open>allGames\<close>, and the list is no longer than \<open>allGames\<close>.
\<close>

theorem visible_is_subcollection:
  "hasGames st \<longrightarrow>
     mset (shown (gamesList (final (applySortingAndFiltering lc st)))) \<subseteq># mset (gamesOf st) \<and>
     set (shown (gamesList (final (applySortingAndFiltering lc st)))) \<subseteq> set (gamesOf st) \<and>
     length (shown (gamesList (final (applySortingAndFiltering lc st)))) \<le> length (gamesOf st)"
proof
  assume h: "hasGames st"
  let ?r = "shown (gamesList (final (applySortingAndFiltering lc st)))"
  have r: "?r = derive lc (currentFilters st) (currentSort st) (gamesOf st)"
    using h by (rule derivation_shows)
  have m: "mset ?r \<subseteq># mset (gamesOf st)"
    unfolding r derive_def by (simp add: mset_jsSort)
  have s: "set ?r \<subseteq> set (gamesOf st)"
    unfolding r derive_def by (auto simp: set_jsSort)
  have l: "length ?r \<le> length (gamesOf st)"
    unfolding r derive_def by (simp add: length_jsSort)
  from m s l show "mset ?r \<subseteq># mset (gamesOf st) \<and> set ?r \<subseteq> set (gamesOf st) \<and> length ?r \<le> length (gamesOf st)"
    by blast
qed

text \<open>Claim C9 on the two games with the search \<open>alp\<close>: one game of the two is shown.\<close>

theorem visible_is_subcollection_witness:
  "hasGames (twoGames\<lparr>currentFilters := noFilters\<lparr>f_search := ''alp''\<rparr>\<rparr>) \<and>
   set (shown (gamesList (final (applySortingAndFiltering codeCompare
          (twoGames\<lparr>currentFilters := noFilters\<lparr>f_search := ''alp''\<rparr>\<rparr>))))) \<subseteq> {alpha, beta} \<and>
   length (shown (gamesList (final (applySortingAndFiltering codeCompare
          (twoGames\<lparr>currentFilters := noFilters\<lparr>f_search := ''alp''\<rparr>\<rparr>))))) \<le> 2"
proof -
  let ?st = "twoGames\<lparr>currentFilters := noFilters\<lparr>f_search := ''alp''\<rparr>\<rparr>"
  have h: "hasGames ?st"
    by (simp add: hasGames_def twoGames_def)
  have g: "gamesOf ?st = [alpha, beta]"
    by (simp add: gamesOf_def twoGames_def)
  from visible_is_subcollection [of ?st codeCompare] h g
  show ?thesis by simp
qed

text \<open>
  Claim C10: a derivation returns and leaves the variable \<open>allGames\<close> and the array it
  refers to as they were, the same games in the same order, as it leaves every other
  array that existed before the call: the copy and the filtered array are new objects,
  and only the filtered array is sorted in place.
\<close>

theorem derivation_leaves_cache:
  "allGames st = ArrayRef a \<and> a < nextAddr st \<longrightarrow>
     (\<exists>st'. applySortingAndFiltering lc st = Returned st' \<and>
        allGames st' = ArrayRef a \<and> arrays st' a = arrays st a \<and>
        (\<forall>b < nextAddr st. arrays st' b = arrays st b) \<and> nextAddr st \<le> nextAddr st')"
  by (auto simp: applySortingAndFiltering_array)

text \<open>Claim C10 on the two games, sorted by hours: the cache keeps its fetch order.\<close>

theorem derivation_leaves_cache_witness:
  "allGames (twoGames\<lparr>currentSort := ''hours''\<rparr>) = ArrayRef 0 \<and>
   0 < nextAddr (twoGames\<lparr>currentSort := ''hours''\<rparr>) \<and>
   (\<exists>st'. applySortingAndFiltering codeCompare (twoGames\<lparr>currentSort := ''hours''\<rparr>) =
            Returned st' \<and>
          allGames st' = ArrayRef 0 \<and> arrays st' 0 = [alpha, beta])"
proof -
  have a: "allGames (twoGames\<lparr>currentSort := ''hours''\<rparr>) = ArrayRef 0"
      "0 < nextAddr (twoGames\<lparr>currentSort := ''hours''\<rparr>)"
      "arrays (twoGames\<lparr>currentSort := ''hours''\<rparr>) 0 = [alpha, beta]"
    by (simp_all add: twoGames_def)
  from derivation_leaves_cache [of "twoGames\<lparr>currentSort := ''hours''\<rparr>" 0 codeCompare] a
  show ?thesis by auto
qed

end
